theory Spec2Isabelle
  imports Main "HOL-Library.Sublist"
begin

section \<open>Strings\<close>

text \<open>
  Python strings are modelled as \<open>string\<close>, the UTF-8 bytes of the text. Substring tests
  (\<open>in\<close>) are the same on bytes and on code points; lengths and slices count bytes,
  which are the characters of ASCII text. The methods \<open>str.lower\<close> and
  \<open>str.strip\<close> belong to the Python runtime, not to the program: they follow the
  Unicode tables and, for \<open>lower\<close>, the context of a letter. The program is therefore
  modelled over any pair of such methods, a parameter \<open>rt\<close> of every operation that
  calls them, and every general statement below holds for whatever the runtime computes.
\<close>

record str_methods =
  lower :: "string \<Rightarrow> string"
  strip :: "string \<Rightarrow> string"

text \<open>\<open>str_in k t\<close> is Python's \<open>k in t\<close> on strings: \<open>k\<close> occurs in \<open>t\<close> as a
  contiguous substring (the empty string occurs in every string).\<close>

fun str_in :: "string \<Rightarrow> string \<Rightarrow> bool" where
  "str_in k [] = (k = [])"
| "str_in k (c # t) = (prefix k (c # t) \<or> str_in k t)"

text \<open>\<open>join sep xs\<close> is Python's \<open>sep.join(xs)\<close>.\<close>

fun join :: "string \<Rightarrow> string list \<Rightarrow> string" where
  "join sep [] = []"
| "join sep [x] = x"
| "join sep (x # y # ys) = x @ sep @ join sep (y # ys)"

subsection \<open>The methods on ASCII and basic Greek text\<close>

text \<open>
  For the examples the two methods are computed on text made of ASCII characters and
  the basic Greek letters (U+0391..U+03A9 and U+03B1..U+03C9), where they are as
  follows. \<open>lower\<close> maps \<open>A\<close>..\<open>Z\<close> to \<open>a\<close>..\<open>z\<close> and a Greek capital to its small
  letter; capital sigma becomes final sigma (U+03C2) when a cased letter precedes it and
  none follows it, case-ignorable characters (\<open>'\<close>, \<open>.\<close>, \<open>:\<close>, \<open>^\<close> and the grave
  accent, among ASCII) being skipped on both sides, and small sigma (U+03C3) otherwise.
  \<open>strip\<close> removes leading and trailing white space (9..13, 28..32 among ASCII).
  Other characters are left as they are.
\<close>

definition is_ascii_letter :: "char \<Rightarrow> bool" where
  "is_ascii_letter c =
     (let n = (of_char c :: nat) in (65 \<le> n \<and> n \<le> 90) \<or> (97 \<le> n \<and> n \<le> 122))"

definition is_case_ignorable :: "char \<Rightarrow> bool" where
  "is_case_ignorable c = (c \<in> set [CHR 0x27, CHR 0x2E, CHR 0x3A, CHR 0x5E, CHR 0x60])"

text \<open>A Greek letter is two bytes: \<open>CE 91\<close>..\<open>CE A9\<close> for the capitals (\<open>CE A2\<close> is
  unassigned), \<open>CE B1\<close>..\<open>CE BF\<close> and \<open>CF 80\<close>..\<open>CF 89\<close> for the small letters.\<close>

definition greek_capital :: "char \<Rightarrow> char \<Rightarrow> bool" where
  "greek_capital c1 c2 =
     (let n = (of_char c2 :: nat) in c1 = CHR 0xCE \<and> 145 \<le> n \<and> n \<le> 169 \<and> n \<noteq> 162)"

definition greek_small :: "char \<Rightarrow> char \<Rightarrow> bool" where
  "greek_small c1 c2 =
     (let n = (of_char c2 :: nat) in
        (c1 = CHR 0xCE \<and> 177 \<le> n \<and> n \<le> 191) \<or> (c1 = CHR 0xCF \<and> 128 \<le> n \<and> n \<le> 137))"

definition lower_char :: "char \<Rightarrow> char" where
  "lower_char c =
     (let n = (of_char c :: nat) in if 65 \<le> n \<and> n \<le> 90 then char_of (n + 32) else c)"

definition lower_greek :: "char \<Rightarrow> string" where
  "lower_greek c2 =
     (let n = (of_char c2 :: nat) in
        if n \<le> 159 then [CHR 0xCE, char_of (n + 32)] else [CHR 0xCF, char_of (n - 32)])"

text \<open>Does the text start, after case-ignorable characters, with a cased letter?\<close>

fun cased_ahead :: "string \<Rightarrow> bool" where
  "cased_ahead [] = False"
| "cased_ahead [c] = is_ascii_letter c"
| "cased_ahead (c1 # c2 # rest) =
     (if is_case_ignorable c1 then cased_ahead (c2 # rest)
      else is_ascii_letter c1 \<or> greek_capital c1 c2 \<or> greek_small c1 c2)"

text \<open>\<open>lower_from prev s\<close> lower-cases \<open>s\<close>; \<open>prev\<close> tells whether the last character
  before \<open>s\<close> that is not case-ignorable is a cased letter.\<close>

fun lower_from :: "bool \<Rightarrow> string \<Rightarrow> string" where
  "lower_from prev [] = []"
| "lower_from prev [c] = [lower_char c]"
| "lower_from prev (c1 # c2 # rest) =
     (if c1 = CHR 0xCE \<and> c2 = CHR 0xA3 then
        (if prev \<and> \<not> cased_ahead rest then [CHR 0xCF, CHR 0x82] else [CHR 0xCF, CHR 0x83])
          @ lower_from True rest
      else if greek_capital c1 c2 then lower_greek c2 @ lower_from True rest
      else if greek_small c1 c2 then [c1, c2] @ lower_from True rest
      else lower_char c1
             # lower_from (if is_case_ignorable c1 then prev else is_ascii_letter c1) (c2 # rest))"

definition is_space :: "char \<Rightarrow> bool" where
  "is_space c =
     (let n = (of_char c :: nat) in (9 \<le> n \<and> n \<le> 13) \<or> (28 \<le> n \<and> n \<le> 32))"

definition py :: str_methods where
  "py = \<lparr>lower = lower_from False,
          strip = (\<lambda>s. rev (dropWhile is_space (rev (dropWhile is_space s))))\<rparr>"

section \<open>Character catalog and sessions\<close>

text \<open>
  One entry of \<open>characters.json\<close>, as far as the server reads it. The file itself is
  not part of the sources, so the catalog is a parameter of every operation that reads
  \<open>CHARACTERS\<close>. An absent \<open>intent_rules\<close> list is the empty list and an absent
  \<open>lore\<close> the empty string (the defaults of the \<open>.get\<close> calls); an absent threshold is
  \<open>None\<close> and gets its default where it is read.
\<close>

record char_cfg =
  lore :: string
  success_keywords :: "string list"
  fail_keywords :: "string list"
  warn_after :: "int option"
  fail_after :: "int option"

text \<open>\<open>thresholds.get("warn_after", 2)\<close> and \<open>thresholds.get("fail_after", 4)\<close>.\<close>

definition get_warn_after :: "char_cfg \<Rightarrow> int" where
  "get_warn_after cfg = (case warn_after cfg of None \<Rightarrow> 2 | Some n \<Rightarrow> n)"

definition get_fail_after :: "char_cfg \<Rightarrow> int" where
  "get_fail_after cfg = (case fail_after cfg of None \<Rightarrow> 4 | Some n \<Rightarrow> n)"

text \<open>
  A session dictionary. \<open>get_session\<close> creates it with the three keys \<open>character\<close>,
  \<open>wrong_count\<close> and \<open>logo_stage\<close>; the key \<open>trust_score\<close> is absent until the chat
  endpoint writes it, and is read with \<open>session.get("trust_score", 0)\<close>.
\<close>

record session =
  character :: string
  wrong_count :: int
  logo_stage :: int
  trust_score :: "int option"

type_synonym session_state = "string \<rightharpoonup> session"

text \<open>The dictionary literal \<open>{"character": character, "wrong_count": 0, "logo_stage": 1}\<close>.\<close>

definition new_session :: "string \<Rightarrow> session" where
  "new_session c = \<lparr>character = c, wrong_count = 0, logo_stage = 1, trust_score = None\<rparr>"

text \<open>\<open>get_session\<close> returns the session and the store it leaves behind.\<close>

definition get_session :: "string \<Rightarrow> string \<Rightarrow> session_state \<Rightarrow> session \<times> session_state" where
  "get_session session_id c st =
     (let st1 = (if st session_id = None then st(session_id \<mapsto> new_session c) else st);
          st2 = (case st1 session_id of
                   None \<Rightarrow> st1
                 | Some s \<Rightarrow> if character s \<noteq> c then st1(session_id \<mapsto> new_session c) else st1)
      in (case st2 session_id of None \<Rightarrow> new_session c | Some s \<Rightarrow> s, st2))"

text \<open>\<open>session.get("trust_score", 0)\<close>.\<close>

definition get_trust_score :: "session \<Rightarrow> int" where
  "get_trust_score s = (case trust_score s of None \<Rightarrow> 0 | Some t \<Rightarrow> t)"

section \<open>Intent classification and the outcome engine\<close>

definition contains_any :: "str_methods \<Rightarrow> string \<Rightarrow> string list \<Rightarrow> bool" where
  "contains_any rt text keywords =
     (let t = lower rt text in list_ex (\<lambda>k. str_in (lower rt k) t) keywords)"

text \<open>
  The engine returns the outcome and the session as it leaves it. Every session comes from
  \<open>get_session\<close>, which sets \<open>wrong_count\<close> and \<open>logo_stage\<close>, so the defaults of
  \<open>session.get("wrong_count", 0)\<close> and \<open>session.get("logo_stage", 1)\<close> are never taken and
  the two keys are plain fields.
\<close>

definition decide_outcome_and_update ::
    "str_methods \<Rightarrow> session \<Rightarrow> char_cfg \<Rightarrow> string \<Rightarrow> bool \<Rightarrow> string \<times> session" where
  "decide_outcome_and_update rt s cfg user_msg used_ai_fallback =
     (if contains_any rt user_msg (success_keywords cfg) then
        (''success'', s\<lparr>wrong_count := max 0 (wrong_count s - 1), logo_stage := 1\<rparr>)
      else if contains_any rt user_msg (fail_keywords cfg) then
        (let s1 = s\<lparr>wrong_count := wrong_count s + 1\<rparr>;
             s2 = s1\<lparr>logo_stage := min 5 (logo_stage s1 + 1)\<rparr>
         in (if wrong_count s2 \<ge> get_fail_after cfg then ''fail'' else ''neutral'', s2))
      else if used_ai_fallback then
        (let s1 = s\<lparr>wrong_count := wrong_count s + 1\<rparr>;
             s2 = (if wrong_count s1 \<ge> get_warn_after cfg
                   then s1\<lparr>logo_stage := min 5 (logo_stage s1 + 1)\<rparr> else s1)
         in (if wrong_count s2 \<ge> get_fail_after cfg then ''fail'' else ''neutral'', s2))
      else (''neutral'', s))"

text \<open>
  A sequence of engine calls on one session: each input is a message and the
  \<open>used_ai_fallback\<close> flag passed with it. The outcomes are returned in order, with
  the session as the last call left it.
\<close>

fun engine_run ::
    "str_methods \<Rightarrow> char_cfg \<Rightarrow> session \<Rightarrow> (string \<times> bool) list \<Rightarrow> string list \<times> session" where
  "engine_run rt cfg s [] = ([], s)"
| "engine_run rt cfg s ((m, fb) # rest) =
     (let r = decide_outcome_and_update rt s cfg m fb;
          rs = engine_run rt cfg (snd r) rest
      in (fst r # fst rs, snd rs))"

text \<open>The character of the spec's scenario: success keyword \<open>sorry\<close>, fail keyword
  \<open>click here\<close>, thresholds 2 and 4.\<close>

definition scenario_cfg :: char_cfg where
  "scenario_cfg = \<lparr>lore = ''A scripted persona.'', success_keywords = [''sorry''],
     fail_keywords = [''click here''], warn_after = Some 2, fail_after = Some 4\<rparr>"

section \<open>Canned replies\<close>

text \<open>
  The pictographs that open the canned replies, as the UTF-8 bytes of the source text,
  and the fragment \<open>'{user_message[:n]}...'\<close> that every per-character template embeds.
\<close>

definition hourglass :: string where
  "hourglass = [CHR 0xC3, CHR 0xA2, CHR 0xC2, CHR 0xB3]"

definition arrows :: string where
  "arrows = [CHR 0xC4, CHR 0x9F, CHR 0xC5, CHR 0xB8, CHR 0xE2, CHR 0x80, CHR 0x9D,
     CHR 0xE2, CHR 0x80, CHR 0x9E]"

definition thinking :: string where
  "thinking = [CHR 0xC4, CHR 0x9F, CHR 0xC5, CHR 0xB8, CHR 0xC2, CHR 0xA4, CHR 0xE2,
     CHR 0x80, CHR 0x9D]"

definition warning_sign :: string where
  "warning_sign = [CHR 0xC3, CHR 0xA2, CHR 0xC5, CHR 0xA1, CHR 0xC2, CHR 0xA0, CHR 0xC3,
     CHR 0xAF, CHR 0xC2, CHR 0xB8]"

definition waving :: string where
  "waving = [CHR 0xC4, CHR 0x9F, CHR 0xC5, CHR 0xB8, CHR 0xE2, CHR 0x80, CHR 0x98,
     CHR 0xE2, CHR 0x80, CHR 0xB9]"

definition quoted :: "nat \<Rightarrow> string \<Rightarrow> string" where
  "quoted n user_message = [CHR 0x27] @ take n user_message @ ''...'' @ [CHR 0x27]"

text \<open>\<open>responses.get(character, default)\<close> on a dictionary literal.\<close>

definition dict_get :: "(string \<times> string) list \<Rightarrow> string \<Rightarrow> string \<Rightarrow> string" where
  "dict_get responses k dflt = (case map_of responses k of None \<Rightarrow> dflt | Some r \<Rightarrow> r)"

definition get_rate_limit_fallback :: "string \<Rightarrow> string \<Rightarrow> string" where
  "get_rate_limit_fallback c user_message =
     dict_get
       [(''maya'', hourglass @ '' Maya here - I'm getting a lot of messages right now. Give me a moment to process your message about ''
            @ quoted 30 user_message @ '' and I'll respond thoughtfully.''),
        (''eli'', hourglass @ '' Eli speaking - Whoa, lots of activity! Let me catch up on your message about ''
            @ quoted 30 user_message @ '' Just need a sec to think it through.''),
        (''stanley'', hourglass @ '' Stanley here - I'm processing many conversations right now. Your message about ''
            @ quoted 30 user_message @ '' is important, just give me a moment.'')]
       c (hourglass @ '' I'm experiencing high traffic right now. Please try again in a moment.'')"

definition get_connection_fallback :: "string \<Rightarrow> string \<Rightarrow> string" where
  "get_connection_fallback c user_message =
     dict_get
       [(''maya'', arrows @ '' Maya here - I'm having some connection issues, but I caught your message about ''
            @ quoted 30 user_message @ '' Let me give you a quick response while I reconnect.''),
        (''eli'', arrows @ '' Eli speaking - Network's being wonky, but I heard you mention ''
            @ quoted 30 user_message @ '' Let me work with what I've got here.''),
        (''stanley'', arrows @ '' Stanley here - Technical difficulties on my end, but regarding your message about ''
            @ quoted 30 user_message @ '' I can still help you out.'')]
       c (arrows @ '' I'm experiencing connection issues. Please try again shortly.'')"

definition get_invalid_request_fallback :: "string \<Rightarrow> string \<Rightarrow> string" where
  "get_invalid_request_fallback c user_message =
     dict_get
       [(''maya'', thinking @ '' Maya here - Something about your message ''
            @ quoted 30 user_message @ '' is causing me technical issues. Could you rephrase that?''),
        (''eli'', thinking @ '' Eli speaking - Your message ''
            @ quoted 30 user_message @ '' is breaking my brain a bit. Mind trying a different way to say that?''),
        (''stanley'', thinking @ '' Stanley here - I'm having trouble processing ''
            @ quoted 30 user_message @ '' Could you try asking that differently?'')]
       c (thinking @ '' I'm having trouble understanding that request. Could you rephrase it?'')"

definition get_generic_ai_fallback :: "string \<Rightarrow> string \<Rightarrow> string" where
  "get_generic_ai_fallback c user_message =
     dict_get
       [(''maya'', warning_sign @ '' Maya here - I'm having some technical difficulties, but I understand you're asking about ''
            @ quoted 30 user_message @ '' Let me try to help despite the issues.''),
        (''eli'', warning_sign @ '' Eli speaking - My AI systems are acting up, but I caught your message about ''
            @ quoted 30 user_message @ '' I'll do my best to respond.''),
        (''stanley'', warning_sign @ '' Stanley here - Technical problems on my end, but regarding ''
            @ quoted 30 user_message @ '' I'll give you what I can.'')]
       c (warning_sign @ '' I'm experiencing technical difficulties. Please try again later.'')"

definition get_demo_mode_response :: "string \<Rightarrow> string \<Rightarrow> string" where
  "get_demo_mode_response c user_message =
     dict_get
       [(''maya'', waving @ '' Hi! I'm Maya. I received your message: ''
            @ quoted 50 user_message @ '' This is demo mode - add your OpenAI API key for full AI responses.''),
        (''eli'', waving @ '' Hey! Eli here. Got your message: ''
            @ quoted 50 user_message @ '' Running in demo mode - need OpenAI API key for smart responses.''),
        (''stanley'', waving @ '' Hello! Stanley speaking. About your message: ''
            @ quoted 50 user_message @ '' This is demo mode - please configure OpenAI API key.'')]
       c (waving @ '' Demo mode - please configure OpenAI API key for full functionality.'')"

section \<open>The generation step\<close>

text \<open>
  The hosted model is outside the program. A configured client is a function from the
  system prompt and the user message to what the \<open>try\<close> block of
  \<open>generate_ai_response\<close> ends with: \<open>Completed content\<close> when the call returns
  (\<open>message.content\<close> is an optional string in the client library, \<open>None\<close> being a
  reply without text), or \<open>Raised e\<close> when anything in the block raises, \<open>e\<close> being
  \<open>str(e)\<close>. The module-level \<open>client\<close> is \<open>None\<close> when no API key was found.

  \<open>generate_ai_response\<close> returns the reply together with the calls it made to the
  external model, each as the pair of system prompt and user message it sent.
\<close>

datatype completion = Completed "string option" | Raised string

type_synonym llm_client = "string \<Rightarrow> string \<Rightarrow> completion"

definition generate_ai_response ::
    "str_methods \<Rightarrow> llm_client option \<Rightarrow> string \<Rightarrow> string \<Rightarrow> string
       \<Rightarrow> string option \<times> (string \<times> string) list" where
  "generate_ai_response rt client c user_message system_prompt =
     (case client of
        Some call \<Rightarrow>
          (case call system_prompt user_message of
             Completed reply_text \<Rightarrow> reply_text
           | Raised e \<Rightarrow>
               (let error_str = lower rt e in
                if str_in ''rate limit'' error_str \<or> str_in ''429'' error_str then
                  Some (get_rate_limit_fallback c user_message)
                else if str_in ''timeout'' error_str \<or> str_in ''connection'' error_str then
                  Some (get_connection_fallback c user_message)
                else if str_in ''invalid'' error_str \<or> str_in ''400'' error_str then
                  Some (get_invalid_request_fallback c user_message)
                else Some (get_generic_ai_fallback c user_message)),
           [(system_prompt, user_message)])
      | None \<Rightarrow> (Some (get_demo_mode_response c user_message), []))"

section \<open>The chat endpoint\<close>

definition GUARDIAN_PROMPT :: string where
  "GUARDIAN_PROMPT = ''You are a calm, empathetic guide. Your goal is to help the player spot red flags and stay safe.''"

definition DECEIVER_PROMPT :: string where
  "DECEIVER_PROMPT = ''You are manipulative, deceptive, and persuasive. Your goal is to lure the player into making risky decisions.''"

definition build_system_prompt :: "string \<Rightarrow> char_cfg \<Rightarrow> string \<Rightarrow> string" where
  "build_system_prompt c cfg persona_prompt =
     (let base = persona_prompt;
          guardrails = ''Stay strictly in-character. Be concise. Your goal is to advance the narrative of the Data_Bleed game.''
      in base @ [CHR 0x0A, CHR 0x0A] @ ''Game Lore Context:'' @ [CHR 0x0A] @ lore cfg
           @ [CHR 0x0A, CHR 0x0A] @ ''Rules:'' @ [CHR 0x0A] @ guardrails)"

text \<open>
  A \<open>ChatRequest\<close>; \<open>sessionId\<close> is optional. The response of the endpoint is a JSON
  object, kept as the list of its keys and values in the order the source writes them;
  an \<open>HTTPException\<close> is a value with its status code and detail.
\<close>

record chat_request =
  req_message :: string
  req_character :: string
  req_sessionId :: "string option"

datatype jval = JStr string | JInt int

type_synonym response = "(string \<times> jval) list"

datatype http_error = HTTPException int string

text \<open>The three locals the endpoint starts with: \<open>character\<close>, \<open>user_message\<close>, \<open>session_id\<close>.\<close>

definition chat_character :: "str_methods \<Rightarrow> chat_request \<Rightarrow> string" where
  "chat_character rt req = strip rt (lower rt (req_character req))"

definition chat_user_message :: "str_methods \<Rightarrow> chat_request \<Rightarrow> string" where
  "chat_user_message rt req = strip rt (req_message req)"

definition chat_session_id :: "chat_request \<Rightarrow> string" where
  "chat_session_id req =
     (case req_sessionId req of None \<Rightarrow> ''default'' | Some sid \<Rightarrow> if sid = [] then ''default'' else sid)"

text \<open>The trust update of the endpoint: success keywords are tried first.\<close>

definition update_trust_score :: "str_methods \<Rightarrow> char_cfg \<Rightarrow> string \<Rightarrow> int \<Rightarrow> int" where
  "update_trust_score rt cfg user_message t =
     (if contains_any rt user_message (success_keywords cfg) then t - 20
      else if contains_any rt user_message (fail_keywords cfg) then t + 20
      else t)"

text \<open>The persona choice of the endpoint: the prompt and the label.\<close>

definition select_persona :: "int \<Rightarrow> string \<times> string" where
  "select_persona t = (if t \<ge> 0 then (DECEIVER_PROMPT, ''deceiver'') else (GUARDIAN_PROMPT, ''guardian''))"

text \<open>The reply of the \<open>except Exception\<close> handler of the endpoint.\<close>

definition technical_difficulties :: "string \<Rightarrow> response" where
  "technical_difficulties request_id =
     [(''reply'', JStr (warning_sign @ '' I'm experiencing technical difficulties right now. Please try again in a moment.'')),
      (''trust_score'', JInt 0),
      (''persona'', JStr ''guardian''),
      (''request_id'', JStr request_id),
      (''error'', JStr ''Technical difficulties'')]"

text \<open>
  The endpoint, with the catalog, the client and the request id it finds as parameters.
  A reply without text makes \<open>len(reply_text)\<close> raise after the session has been
  written; the \<open>except Exception\<close> handler then answers.
\<close>

definition chat ::
    "str_methods \<Rightarrow> (string \<times> char_cfg) list \<Rightarrow> llm_client option \<Rightarrow> chat_request \<Rightarrow> string
       \<Rightarrow> session_state \<Rightarrow> (http_error + response) \<times> session_state" where
  "chat rt CHARACTERS client req request_id st =
     (let c = chat_character rt req;
          user_message = chat_user_message rt req;
          session_id = chat_session_id req
      in if c = [] then (Inl (HTTPException 400 ''Character is required''), st)
         else case map_of CHARACTERS c of
           None \<Rightarrow>
             (Inl (HTTPException 400 (''Unknown character '' @ [CHR 0x27] @ c @ [CHR 0x27]
                @ ''. Available characters: '' @ join '', '' (map fst CHARACTERS))), st)
         | Some cfg \<Rightarrow>
             if user_message = [] then (Inl (HTTPException 400 ''Message cannot be empty''), st)
             else if length user_message > 1000 then
               (Inl (HTTPException 400 ''Message too long (max 1000 characters)''), st)
             else
               (let (s, st1) = get_session session_id c st;
                    t = update_trust_score rt cfg user_message (get_trust_score s);
                    st2 = st1(session_id \<mapsto> s\<lparr>trust_score := Some t\<rparr>);
                    (persona_prompt, persona) = select_persona t;
                    system_prompt = build_system_prompt c cfg persona_prompt
                in case fst (generate_ai_response rt client c user_message system_prompt) of
                     None \<Rightarrow> (Inr (technical_difficulties request_id), st2)
                   | Some reply_text \<Rightarrow>
                       (Inr [(''reply'', JStr reply_text),
                             (''trust_score'', JInt t),
                             (''persona'', JStr persona),
                             (''request_id'', JStr request_id)], st2)))"

text \<open>
  Two shorthands for the statements below: the session a request is served on (what
  \<open>get_session\<close> hands to the endpoint), and the trust score the endpoint computes
  from it for a character configuration.
\<close>

abbreviation served_session :: "str_methods \<Rightarrow> chat_request \<Rightarrow> session_state \<Rightarrow> session" where
  "served_session rt req st \<equiv> fst (get_session (chat_session_id req) (chat_character rt req) st)"

abbreviation trust_after :: "str_methods \<Rightarrow> char_cfg \<Rightarrow> chat_request \<Rightarrow> session_state \<Rightarrow> int" where
  "trust_after rt cfg req st \<equiv>
     update_trust_score rt cfg (chat_user_message rt req) (get_trust_score (served_session rt req st))"

text \<open>A sequence of chat requests against one store, each with its request id.\<close>

fun chat_run ::
    "str_methods \<Rightarrow> (string \<times> char_cfg) list \<Rightarrow> llm_client option \<Rightarrow> (chat_request \<times> string) list
       \<Rightarrow> session_state \<Rightarrow> (http_error + response) list \<times> session_state" where
  "chat_run rt CHARACTERS client [] st = ([], st)"
| "chat_run rt CHARACTERS client ((req, rid) # rest) st =
     (let r = chat rt CHARACTERS client req rid st;
          rs = chat_run rt CHARACTERS client rest (snd r)
      in (fst r # fst rs, snd rs))"

text \<open>A catalog with the scenario character under the name \<open>maya\<close>, and requests to it.\<close>

definition scenario_catalog :: "(string \<times> char_cfg) list" where
  "scenario_catalog = [(''maya'', scenario_cfg), (''eli'', scenario_cfg)]"

definition request_to :: "string \<Rightarrow> string \<Rightarrow> chat_request" where
  "request_to c m = \<lparr>req_message = m, req_character = c, req_sessionId = Some ''s1''\<rparr>"



text \<open>
  Two clients for the examples: one whose model answers with the system prompt it was
  sent, one whose model answers without text.
\<close>

definition echo_client :: llm_client where
  "echo_client system_prompt user_message = Completed (Some system_prompt)"

definition silent_client :: llm_client where
  "silent_client system_prompt user_message = Completed None"

text \<open>A client whose call fails with the given description.\<close>

definition raising_client :: "string \<Rightarrow> llm_client" where
  "raising_client e system_prompt user_message = Raised e"

text \<open>A store in which session \<open>s1\<close> of \<open>maya\<close> carries counters above their initial values.\<close>

definition escalated_store :: session_state where
  "escalated_store = Map.empty(''s1'' \<mapsto>
     \<lparr>character = ''maya'', wrong_count = 3, logo_stage = 4, trust_score = Some 40\<rparr>)"

section \<open>Facts about strings\<close>

lemma str_in_iff_sublist: "str_in k t \<longleftrightarrow> sublist k t"
proof (induction t)
  case Nil
  show ?case by simp
next
  case (Cons c t)
  show ?case
  proof (cases k)
    case Nil
    then show ?thesis by simp
  next
    case (Cons a as)
    with Cons.IH show ?thesis by (simp add: sublist_Cons_right)
  qed
qed

lemma str_in_middle: "str_in k (a @ k @ b)"
  by (simp add: str_in_iff_sublist sublist_def) blast

section \<open>The outcome engine\<close>

lemma decide_keeps_bounds:
  assumes "0 \<le> wrong_count s" "1 \<le> logo_stage s" "logo_stage s \<le> 5"
  shows "0 \<le> wrong_count (snd (decide_outcome_and_update rt s cfg m fb))
       \<and> 1 \<le> logo_stage (snd (decide_outcome_and_update rt s cfg m fb))
       \<and> logo_stage (snd (decide_outcome_and_update rt s cfg m fb)) \<le> 5"
  using assms by (simp add: decide_outcome_and_update_def Let_def)

lemma engine_run_keeps_bounds:
  "0 \<le> wrong_count s \<Longrightarrow> 1 \<le> logo_stage s \<Longrightarrow> logo_stage s \<le> 5 \<Longrightarrow>
   0 \<le> wrong_count (snd (engine_run rt cfg s inputs))
   \<and> 1 \<le> logo_stage (snd (engine_run rt cfg s inputs))
   \<and> logo_stage (snd (engine_run rt cfg s inputs)) \<le> 5"
proof (induction inputs arbitrary: s)
  case Nil
  then show ?case by simp
next
  case (Cons x inputs)
  obtain m fb where x: "x = (m, fb)" by (cases x)
  obtain outcome s' where d: "decide_outcome_and_update rt s cfg m fb = (outcome, s')"
    by (cases "decide_outcome_and_update rt s cfg m fb")
  have "0 \<le> wrong_count s' \<and> 1 \<le> logo_stage s' \<and> logo_stage s' \<le> 5"
    using decide_keeps_bounds [OF Cons.prems, of rt cfg m fb] d by simp
  then have "0 \<le> wrong_count (snd (engine_run rt cfg s' inputs))
       \<and> 1 \<le> logo_stage (snd (engine_run rt cfg s' inputs))
       \<and> logo_stage (snd (engine_run rt cfg s' inputs)) \<le> 5"
    using Cons.IH [of s'] by blast
  then show ?case
    by (simp add: x d Let_def)
qed

lemma str_in_refl: "str_in k k"
  using str_in_middle [of k "[]" "[]"] by simp

lemma contains_any_single: "contains_any rt k [k]"
  by (simp add: contains_any_def str_in_refl)

lemma decide_fail_keyword:
  assumes "\<not> contains_any rt m (success_keywords cfg)" "contains_any rt m (fail_keywords cfg)"
  shows "decide_outcome_and_update rt s cfg m fb =
           (if wrong_count s + 1 \<ge> get_fail_after cfg then ''fail'' else ''neutral'',
            s\<lparr>wrong_count := wrong_count s + 1, logo_stage := min 5 (logo_stage s + 1)\<rparr>)"
  using assms by (simp add: decide_outcome_and_update_def Let_def)

subsection \<open>C2: four fail-keyword messages on a fresh session\<close>

text \<open>
  C2 as the spec states it: after four \<open>click here\<close> messages on a fresh session of the
  scenario character, \<open>wrong_count\<close> is 4, \<open>logo_stage\<close> is 3 and the fourth outcome is
  \<open>fail\<close>. The engine raises \<open>logo_stage\<close> on every fail-keyword message, so the stage
  is 5 by then, and the statement as written is false.
\<close>

theorem four_clicks_stage_three_counterexample:
  "\<not> (wrong_count (snd (engine_run py scenario_cfg (new_session ''maya'')
          [(''click here'', False), (''click here'', False), (''click here'', False), (''click here'', False)])) = 4
      \<and> logo_stage (snd (engine_run py scenario_cfg (new_session ''maya'')
          [(''click here'', False), (''click here'', False), (''click here'', False), (''click here'', False)])) = 3
      \<and> fst (engine_run py scenario_cfg (new_session ''maya'')
          [(''click here'', False), (''click here'', False), (''click here'', False), (''click here'', False)]) ! 3 = ''fail'')"
  by code_simp

text \<open>
  C2, amended: for a character whose only fail keyword is \<open>click here\<close>, whose success
  keywords do not occur in that message, and whose thresholds are 2 and 4, four
  consecutive \<open>click here\<close> messages on a fresh session give the outcomes neutral,
  neutral, neutral, fail and leave \<open>wrong_count = 4\<close> and \<open>logo_stage = 5\<close>, whatever the
  fallback flags passed along.
\<close>

theorem four_clicks_reach_stage_five:
  assumes "fail_keywords cfg = [''click here'']"
    and "\<not> contains_any rt ''click here'' (success_keywords cfg)"
    and "warn_after cfg = Some 2" and "fail_after cfg = Some 4"
  shows "engine_run rt cfg (new_session c)
           [(''click here'', f1), (''click here'', f2), (''click here'', f3), (''click here'', f4)]
         = ([''neutral'', ''neutral'', ''neutral'', ''fail''],
            (new_session c)\<lparr>wrong_count := 4, logo_stage := 5\<rparr>)"
proof -
  have fk: "contains_any rt ''click here'' (fail_keywords cfg)"
    using assms(1) contains_any_single [of rt "''click here''"] by simp
  have fa: "get_fail_after cfg = 4"
    using assms(4) by (simp add: get_fail_after_def)
  note step = decide_fail_keyword [OF assms(2) fk]
  show ?thesis
    by (simp add: step fa Let_def new_session_def)
qed

theorem four_clicks_reach_stage_five_witness:
  "fail_keywords scenario_cfg = [''click here'']
   \<and> \<not> contains_any py ''click here'' (success_keywords scenario_cfg)
   \<and> warn_after scenario_cfg = Some 2 \<and> fail_after scenario_cfg = Some 4
   \<and> engine_run py scenario_cfg (new_session ''maya'')
           [(''click here'', False), (''click here'', True), (''click here'', False), (''click here'', True)]
         = ([''neutral'', ''neutral'', ''neutral'', ''fail''],
            (new_session ''maya'')\<lparr>wrong_count := 4, logo_stage := 5\<rparr>)"
proof -
  have h1: "fail_keywords scenario_cfg = [''click here'']" by (simp add: scenario_cfg_def)
  have h2: "\<not> contains_any py ''click here'' (success_keywords scenario_cfg)"
    by code_simp
  have h3: "warn_after scenario_cfg = Some 2" by (simp add: scenario_cfg_def)
  have h4: "fail_after scenario_cfg = Some 4" by (simp add: scenario_cfg_def)
  from four_clicks_reach_stage_five [OF h1 h2 h3 h4, of "''maya''" False True False True] h1 h2 h3 h4
  show ?thesis by blast
qed

section \<open>The session store and the chat endpoint\<close>

lemma get_session_snd: "snd (get_session sid c st) = st(sid \<mapsto> fst (get_session sid c st))"
  by (auto simp: get_session_def Let_def fun_eq_iff split: option.splits)

lemma get_session_absent: "st sid = None \<Longrightarrow> fst (get_session sid c st) = new_session c"
  by (simp add: get_session_def Let_def new_session_def)

lemma get_session_same:
  "st sid = Some s \<Longrightarrow> character s = c \<Longrightarrow> fst (get_session sid c st) = s"
  by (simp add: get_session_def Let_def)

lemma get_session_rebind:
  "st sid = Some s \<Longrightarrow> character s \<noteq> c \<Longrightarrow> fst (get_session sid c st) = new_session c"
  by (simp add: get_session_def Let_def)

lemma get_session_character: "character (fst (get_session sid c st)) = c"
  by (cases "st sid") (auto simp: get_session_def Let_def new_session_def)

text \<open>What the endpoint does with a request that passes its four checks.\<close>

lemma chat_accepted:
  assumes "chat_character rt req \<noteq> []"
    and "map_of CHARACTERS (chat_character rt req) = Some cfg"
    and "chat_user_message rt req \<noteq> []"
    and "length (chat_user_message rt req) \<le> 1000"
  shows "chat rt CHARACTERS client req rid st =
     (Inr (case fst (generate_ai_response rt client (chat_character rt req) (chat_user_message rt req)
                 (build_system_prompt (chat_character rt req) cfg
                    (fst (select_persona (trust_after rt cfg req st))))) of
             None \<Rightarrow> technical_difficulties rid
           | Some reply_text \<Rightarrow>
               [(''reply'', JStr reply_text),
                (''trust_score'', JInt (trust_after rt cfg req st)),
                (''persona'', JStr (snd (select_persona (trust_after rt cfg req st)))),
                (''request_id'', JStr rid)]),
      st(chat_session_id req \<mapsto> (served_session rt req st)\<lparr>trust_score := Some (trust_after rt cfg req st)\<rparr>))"
  using assms
  by (simp add: chat_def Let_def split_beta get_session_snd split: option.splits)

text \<open>A request that fails a check is answered with an HTTP error and changes nothing.\<close>

lemma chat_rejected:
  assumes "chat_character rt req = [] \<or> map_of CHARACTERS (chat_character rt req) = None
     \<or> chat_user_message rt req = [] \<or> length (chat_user_message rt req) > 1000"
  shows "snd (chat rt CHARACTERS client req rid st) = st
     \<and> (\<exists>e. fst (chat rt CHARACTERS client req rid st) = Inl e)"
  using assms
  by (auto simp add: chat_def Let_def split: option.splits)

section \<open>Sequences of engine calls\<close>

lemma engine_run_append:
  "engine_run rt cfg s (xs @ ys) =
     (fst (engine_run rt cfg s xs) @ fst (engine_run rt cfg (snd (engine_run rt cfg s xs)) ys),
      snd (engine_run rt cfg (snd (engine_run rt cfg s xs)) ys))"
proof (induction xs arbitrary: s)
  case Nil
  show ?case by simp
next
  case (Cons x xs)
  obtain m fb where x: "x = (m, fb)" by (cases x)
  show ?case by (simp add: x Let_def Cons.IH)
qed

lemma decide_success_keyword:
  assumes "contains_any rt m (success_keywords cfg)"
  shows "decide_outcome_and_update rt s cfg m fb =
           (''success'', s\<lparr>wrong_count := max 0 (wrong_count s - 1), logo_stage := 1\<rparr>)"
  using assms by (simp add: decide_outcome_and_update_def)

subsection \<open>C4: the counters stay in range\<close>

text \<open>
  C4: whatever sequence of messages and fallback flags the engine is run on, starting
  from a session as \<open>get_session\<close> creates it, \<open>wrong_count\<close> is never negative and
  \<open>logo_stage\<close> stays within 1..5; and when the last message of a sequence is classified
  as a success, its outcome is \<open>success\<close> and \<open>logo_stage\<close> is 1 right after it.
\<close>

theorem engine_counters_in_range:
  "0 \<le> wrong_count (snd (engine_run rt cfg (new_session c) inputs))
   \<and> 1 \<le> logo_stage (snd (engine_run rt cfg (new_session c) inputs))
   \<and> logo_stage (snd (engine_run rt cfg (new_session c) inputs)) \<le> 5
   \<and> (contains_any rt m (success_keywords cfg) \<longrightarrow>
        last (fst (engine_run rt cfg (new_session c) (inputs @ [(m, fb)]))) = ''success''
        \<and> logo_stage (snd (engine_run rt cfg (new_session c) (inputs @ [(m, fb)]))) = 1)"
proof -
  have fresh: "0 \<le> wrong_count (new_session c)" "1 \<le> logo_stage (new_session c)"
    "logo_stage (new_session c) \<le> 5"
    by (simp_all add: new_session_def)
  have bounds: "0 \<le> wrong_count (snd (engine_run rt cfg (new_session c) inputs))
   \<and> 1 \<le> logo_stage (snd (engine_run rt cfg (new_session c) inputs))
   \<and> logo_stage (snd (engine_run rt cfg (new_session c) inputs)) \<le> 5"
    by (rule engine_run_keeps_bounds [OF fresh])
  have reset: "last (fst (engine_run rt cfg (new_session c) (inputs @ [(m, fb)]))) = ''success''
        \<and> logo_stage (snd (engine_run rt cfg (new_session c) (inputs @ [(m, fb)]))) = 1"
    if "contains_any rt m (success_keywords cfg)"
    by (simp add: engine_run_append Let_def decide_success_keyword [OF that])
  from bounds reset show ?thesis by blast
qed

theorem engine_counters_in_range_witness:
  "0 \<le> wrong_count (snd (engine_run py scenario_cfg (new_session ''maya'')
          [(''click here'', False), (''hello'', True)]))
   \<and> 1 \<le> logo_stage (snd (engine_run py scenario_cfg (new_session ''maya'')
          [(''click here'', False), (''hello'', True)]))
   \<and> logo_stage (snd (engine_run py scenario_cfg (new_session ''maya'')
          [(''click here'', False), (''hello'', True)])) \<le> 5
   \<and> contains_any py ''I am SORRY'' (success_keywords scenario_cfg)
   \<and> last (fst (engine_run py scenario_cfg (new_session ''maya'')
          ([(''click here'', False), (''hello'', True)] @ [(''I am SORRY'', False)]))) = ''success''
   \<and> logo_stage (snd (engine_run py scenario_cfg (new_session ''maya'')
          ([(''click here'', False), (''hello'', True)] @ [(''I am SORRY'', False)]))) = 1"
proof -
  have h: "contains_any py ''I am SORRY'' (success_keywords scenario_cfg)"
    by code_simp
  from engine_counters_in_range [of py scenario_cfg "''maya''"
      "[(''click here'', False), (''hello'', True)]" "''I am SORRY''" False] h
  show ?thesis by blast
qed

subsection \<open>C5: success keywords are tried before fail keywords\<close>




lemma chat_store:
  "snd (chat rt CHARACTERS client req rid st) = st
   \<or> (\<exists>t. snd (chat rt CHARACTERS client req rid st)
            = st(chat_session_id req \<mapsto> (served_session rt req st)\<lparr>trust_score := Some t\<rparr>))"
proof (cases "chat_character rt req = [] \<or> map_of CHARACTERS (chat_character rt req) = None
     \<or> chat_user_message rt req = [] \<or> length (chat_user_message rt req) > 1000")
  case True
  then show ?thesis using chat_rejected [OF True] by blast
next
  case False
  then obtain cfg where "map_of CHARACTERS (chat_character rt req) = Some cfg" by auto
  with False show ?thesis
    by (auto simp: chat_accepted [where cfg = cfg])
qed

lemma served_session_cases:
  "served_session rt req st =
     (case st (chat_session_id req) of
        None \<Rightarrow> new_session (chat_character rt req)
      | Some s \<Rightarrow> if character s = chat_character rt req then s else new_session (chat_character rt req))"
  by (simp add: get_session_absent get_session_same get_session_rebind split: option.splits)

subsection \<open>C3: the chat endpoint writes the trust score and nothing else\<close>

text \<open>
  C3: a chat request either leaves the store as it is (the request was refused) or
  replaces the entry of its session id by the session it was served on with the key
  \<open>trust_score\<close> written, and touches no other entry. The session served is the stored
  one when it is bound to the requested character, and a newly created one otherwise
  (no entry yet, or a character rebind). So on a session that stays with its character
  \<open>wrong_count\<close>, \<open>logo_stage\<close> and \<open>character\<close> are what they were: the endpoint does
  not run the outcome engine, not even on a fail-keyword message.
\<close>

theorem chat_writes_trust_score_only:
  "(snd (chat rt CHARACTERS client req rid st) = st
    \<or> (\<exists>t. snd (chat rt CHARACTERS client req rid st)
            = st(chat_session_id req \<mapsto> (served_session rt req st)\<lparr>trust_score := Some t\<rparr>)))
   \<and> served_session rt req st =
       (case st (chat_session_id req) of
          None \<Rightarrow> new_session (chat_character rt req)
        | Some s \<Rightarrow> if character s = chat_character rt req then s else new_session (chat_character rt req))
   \<and> (st (chat_session_id req) = Some s \<and> character s = chat_character rt req \<longrightarrow>
        (\<exists>s'. snd (chat rt CHARACTERS client req rid st) (chat_session_id req) = Some s'
           \<and> wrong_count s' = wrong_count s \<and> logo_stage s' = logo_stage s
           \<and> character s' = character s))"
proof -
  have "\<exists>s'. snd (chat rt CHARACTERS client req rid st) (chat_session_id req) = Some s'
           \<and> wrong_count s' = wrong_count s \<and> logo_stage s' = logo_stage s
           \<and> character s' = character s"
    if "st (chat_session_id req) = Some s" "character s = chat_character rt req"
  proof -
    have "served_session rt req st = s"
      using that by (simp add: get_session_same)
    with chat_store [of rt CHARACTERS client req rid st] that(1) show ?thesis
      by auto
  qed
  with chat_store [of rt CHARACTERS client req rid st] served_session_cases [where rt = rt and req = req and st = st]
  show ?thesis by blast
qed

theorem chat_writes_trust_score_only_witness:
  "escalated_store (chat_session_id (request_to ''maya'' ''click here'')) =
      Some \<lparr>character = ''maya'', wrong_count = 3, logo_stage = 4, trust_score = Some 40\<rparr>
   \<and> character \<lparr>character = ''maya'', wrong_count = 3, logo_stage = 4, trust_score = Some 40\<rparr>
       = chat_character py (request_to ''maya'' ''click here'')
   \<and> (\<exists>s'. snd (chat py scenario_catalog None (request_to ''maya'' ''click here'') ''unknown'' escalated_store)
              (chat_session_id (request_to ''maya'' ''click here'')) = Some s'
           \<and> wrong_count s' = 3 \<and> logo_stage s' = 4 \<and> character s' = ''maya'')"
proof -
  have h1: "escalated_store (chat_session_id (request_to ''maya'' ''click here'')) =
      Some \<lparr>character = ''maya'', wrong_count = 3, logo_stage = 4, trust_score = Some 40\<rparr>"
    by (simp add: escalated_store_def chat_session_id_def request_to_def)
  have h2: "character \<lparr>character = ''maya'', wrong_count = 3, logo_stage = 4, trust_score = Some 40\<rparr>
       = chat_character py (request_to ''maya'' ''click here'')"
    by code_simp
  from chat_writes_trust_score_only [of py scenario_catalog None "request_to ''maya'' ''click here''"
      "''unknown''" escalated_store
      "\<lparr>character = ''maya'', wrong_count = 3, logo_stage = 4, trust_score = Some 40\<rparr>"] h1 h2
  show ?thesis by simp
qed

subsection \<open>C1: the record the chat endpoint returns\<close>

text \<open>
  C1 as the spec states it: an accepted request is answered with a record that holds the
  reply, the trust score, the persona and an outcome label among \<open>success\<close>, \<open>fail\<close>
  and \<open>neutral\<close>. The endpoint never computes an outcome: on a fail-keyword message
  to \<open>maya\<close> the record has the four keys \<open>reply\<close>, \<open>trust_score\<close>, \<open>persona\<close> and
  \<open>request_id\<close>, and no \<open>outcome\<close>.
\<close>

theorem chat_reply_outcome_counterexample:
  "fst (chat py scenario_catalog None (request_to ''maya'' ''click here'') ''unknown'' Map.empty)
     = Inr [(''reply'', JStr (get_demo_mode_response ''maya'' ''click here'')),
            (''trust_score'', JInt 20),
            (''persona'', JStr ''deceiver''),
            (''request_id'', JStr ''unknown'')]
   \<and> map_of (projr (fst (chat py scenario_catalog None (request_to ''maya'' ''click here'')
         ''unknown'' Map.empty))) ''outcome'' = None"
  by code_simp

text \<open>
  C1, amended: for every request whose lower-cased and stripped character is not empty
  and is a key of the catalog and whose stripped message is not empty and at most 1000
  characters long, the endpoint answers with a record and the session is stored. When
  the generation step yields a reply text, the record has exactly the keys \<open>reply\<close>,
  \<open>trust_score\<close>, \<open>persona\<close> and \<open>request_id\<close>, with that text, the stored session's
  trust score and the persona chosen from it, which is \<open>guardian\<close> or \<open>deceiver\<close>.
  When the generation step yields no text, the record is the fixed one of the
  \<open>except Exception\<close> handler. Neither carries an outcome label.
\<close>

theorem chat_reply_record:
  assumes "chat_character rt req \<noteq> []"
    and "map_of CHARACTERS (chat_character rt req) = Some cfg"
    and "chat_user_message rt req \<noteq> []"
    and "length (chat_user_message rt req) \<le> 1000"
  shows "\<exists>s'. snd (chat rt CHARACTERS client req rid st) (chat_session_id req) = Some s'
     \<and> fst (chat rt CHARACTERS client req rid st) =
         Inr (case fst (generate_ai_response rt client (chat_character rt req) (chat_user_message rt req)
                     (build_system_prompt (chat_character rt req) cfg
                        (fst (select_persona (get_trust_score s'))))) of
                None \<Rightarrow> technical_difficulties rid
              | Some reply_text \<Rightarrow>
                  [(''reply'', JStr reply_text),
                   (''trust_score'', JInt (get_trust_score s')),
                   (''persona'', JStr (snd (select_persona (get_trust_score s')))),
                   (''request_id'', JStr rid)])
     \<and> (snd (select_persona (get_trust_score s')) = ''guardian''
          \<or> snd (select_persona (get_trust_score s')) = ''deceiver'')
     \<and> map_of (projr (fst (chat rt CHARACTERS client req rid st))) ''outcome'' = None"
proof -
  let ?t = "trust_after rt cfg req st"
  let ?s' = "(served_session rt req st)\<lparr>trust_score := Some ?t\<rparr>"
  have st: "snd (chat rt CHARACTERS client req rid st) (chat_session_id req) = Some ?s'"
    by (simp add: chat_accepted [OF assms])
  have ts: "get_trust_score ?s' = ?t"
    by (simp add: get_trust_score_def)
  have reply: "fst (chat rt CHARACTERS client req rid st) =
         Inr (case fst (generate_ai_response rt client (chat_character rt req) (chat_user_message rt req)
                     (build_system_prompt (chat_character rt req) cfg
                        (fst (select_persona (get_trust_score ?s'))))) of
                None \<Rightarrow> technical_difficulties rid
              | Some reply_text \<Rightarrow>
                  [(''reply'', JStr reply_text),
                   (''trust_score'', JInt (get_trust_score ?s')),
                   (''persona'', JStr (snd (select_persona (get_trust_score ?s')))),
                   (''request_id'', JStr rid)])"
    unfolding ts by (simp add: chat_accepted [OF assms])
  have persona: "snd (select_persona (get_trust_score ?s')) = ''guardian''
          \<or> snd (select_persona (get_trust_score ?s')) = ''deceiver''"
    by (simp add: select_persona_def)
  have no_outcome: "map_of (projr (fst (chat rt CHARACTERS client req rid st))) ''outcome'' = None"
    by (simp add: chat_accepted [OF assms] technical_difficulties_def split: option.splits)
  from st reply persona no_outcome show ?thesis by blast
qed

theorem chat_reply_record_witness:
  "chat_character py (request_to ''Maya '' '' I clicked, sorry '') \<noteq> []
   \<and> map_of scenario_catalog (chat_character py (request_to ''Maya '' '' I clicked, sorry '')) = Some scenario_cfg
   \<and> chat_user_message py (request_to ''Maya '' '' I clicked, sorry '') \<noteq> []
   \<and> length (chat_user_message py (request_to ''Maya '' '' I clicked, sorry '')) \<le> 1000
   \<and> (\<exists>s'. snd (chat py scenario_catalog (Some echo_client) (request_to ''Maya '' '' I clicked, sorry '')
                 ''unknown'' Map.empty) (chat_session_id (request_to ''Maya '' '' I clicked, sorry '')) = Some s'
     \<and> fst (chat py scenario_catalog (Some echo_client) (request_to ''Maya '' '' I clicked, sorry '')
                 ''unknown'' Map.empty) =
         Inr (case fst (generate_ai_response py (Some echo_client)
                     (chat_character py (request_to ''Maya '' '' I clicked, sorry ''))
                     (chat_user_message py (request_to ''Maya '' '' I clicked, sorry ''))
                     (build_system_prompt (chat_character py (request_to ''Maya '' '' I clicked, sorry ''))
                        scenario_cfg (fst (select_persona (get_trust_score s'))))) of
                None \<Rightarrow> technical_difficulties ''unknown''
              | Some reply_text \<Rightarrow>
                  [(''reply'', JStr reply_text),
                   (''trust_score'', JInt (get_trust_score s')),
                   (''persona'', JStr (snd (select_persona (get_trust_score s')))),
                   (''request_id'', JStr ''unknown'')])
     \<and> (snd (select_persona (get_trust_score s')) = ''guardian''
          \<or> snd (select_persona (get_trust_score s')) = ''deceiver'')
     \<and> map_of (projr (fst (chat py scenario_catalog (Some echo_client)
           (request_to ''Maya '' '' I clicked, sorry '') ''unknown'' Map.empty))) ''outcome'' = None)
   \<and> fst (chat py scenario_catalog (Some echo_client) (request_to ''Maya '' '' I clicked, sorry '')
         ''unknown'' Map.empty) =
         Inr [(''reply'', JStr (build_system_prompt ''maya'' scenario_cfg GUARDIAN_PROMPT)),
              (''trust_score'', JInt (- 20)),
              (''persona'', JStr ''guardian''),
              (''request_id'', JStr ''unknown'')]
   \<and> fst (chat py scenario_catalog (Some silent_client) (request_to ''Maya '' '' I clicked, sorry '')
         ''unknown'' Map.empty) = Inr (technical_difficulties ''unknown'')"
proof -
  have h1: "chat_character py (request_to ''Maya '' '' I clicked, sorry '') \<noteq> []"
    by code_simp
  have h2: "map_of scenario_catalog (chat_character py (request_to ''Maya '' '' I clicked, sorry ''))
      = Some scenario_cfg"
    by code_simp
  have h3: "chat_user_message py (request_to ''Maya '' '' I clicked, sorry '') \<noteq> []"
    by code_simp
  have h4: "length (chat_user_message py (request_to ''Maya '' '' I clicked, sorry '')) \<le> 1000"
    by code_simp
  have e1: "fst (chat py scenario_catalog (Some echo_client) (request_to ''Maya '' '' I clicked, sorry '')
         ''unknown'' Map.empty) =
         Inr [(''reply'', JStr (build_system_prompt ''maya'' scenario_cfg GUARDIAN_PROMPT)),
              (''trust_score'', JInt (- 20)),
              (''persona'', JStr ''guardian''),
              (''request_id'', JStr ''unknown'')]"
    by code_simp
  have e2: "fst (chat py scenario_catalog (Some silent_client) (request_to ''Maya '' '' I clicked, sorry '')
         ''unknown'' Map.empty) = Inr (technical_difficulties ''unknown'')"
    by code_simp
  from chat_reply_record [OF h1 h2 h3 h4, of "Some echo_client" "''unknown''" Map.empty] h1 h2 h3 h4 e1 e2
  show ?thesis by blast
qed

subsection \<open>C7: the persona is chosen from the trust score\<close>

text \<open>
  C7 as the spec states it: the persona a chat request returns is \<open>deceiver\<close> exactly
  when the session's trust score, after this request's update, is at least 0. When the
  model answers without text, the endpoint has already stored the score (here 0) and
  its \<open>except Exception\<close> handler answers with the fixed persona \<open>guardian\<close>.
\<close>

theorem persona_of_last_resort_reply_counterexample:
  "snd (chat py scenario_catalog (Some silent_client) (request_to ''maya'' ''hello'') ''unknown'' Map.empty) ''s1''
     = Some \<lparr>character = ''maya'', wrong_count = 0, logo_stage = 1, trust_score = Some 0\<rparr>
   \<and> map_of (projr (fst (chat py scenario_catalog (Some silent_client) (request_to ''maya'' ''hello'')
         ''unknown'' Map.empty))) ''persona'' = Some (JStr ''guardian'')"
  by code_simp

text \<open>
  C7, amended: on every accepted request the persona is chosen from the trust score after
  this request's update and from nothing else. The session is stored with that score;
  the prompt handed to the generation step is the deceiver prompt when the score is at
  least 0 and the guardian prompt when it is below 0; and the record returned with the
  generated reply carries that score and the label \<open>deceiver\<close> or \<open>guardian\<close>
  accordingly. Only the record of the \<open>except Exception\<close> handler, returned when the
  generation step yields no text, does not follow the score: it is fixed.
\<close>

theorem persona_follows_trust_score:
  assumes "chat_character rt req \<noteq> []"
    and "map_of CHARACTERS (chat_character rt req) = Some cfg"
    and "chat_user_message rt req \<noteq> []"
    and "length (chat_user_message rt req) \<le> 1000"
  shows "snd (chat rt CHARACTERS client req rid st) (chat_session_id req)
           = Some ((served_session rt req st)\<lparr>trust_score := Some (trust_after rt cfg req st)\<rparr>)
     \<and> fst (chat rt CHARACTERS client req rid st) =
         Inr (case fst (generate_ai_response rt client (chat_character rt req) (chat_user_message rt req)
                     (build_system_prompt (chat_character rt req) cfg
                        (if trust_after rt cfg req st \<ge> 0 then DECEIVER_PROMPT else GUARDIAN_PROMPT))) of
                None \<Rightarrow> technical_difficulties rid
              | Some reply_text \<Rightarrow>
                  [(''reply'', JStr reply_text),
                   (''trust_score'', JInt (trust_after rt cfg req st)),
                   (''persona'', JStr (if trust_after rt cfg req st \<ge> 0 then ''deceiver'' else ''guardian'')),
                   (''request_id'', JStr rid)])"
proof (cases "trust_after rt cfg req st \<ge> 0")
  case True
  then show ?thesis
    by (simp add: chat_accepted [OF assms] select_persona_def split: option.splits)
next
  case False
  then show ?thesis
    by (simp add: chat_accepted [OF assms] select_persona_def split: option.splits)
qed



theorem persona_follows_trust_score_witness:
  "chat_character py (request_to ''maya'' ''so sorry'') \<noteq> []
   \<and> map_of scenario_catalog (chat_character py (request_to ''maya'' ''so sorry'')) = Some scenario_cfg
   \<and> chat_user_message py (request_to ''maya'' ''so sorry'') \<noteq> []
   \<and> length (chat_user_message py (request_to ''maya'' ''so sorry'')) \<le> 1000
   \<and> trust_after py scenario_cfg (request_to ''maya'' ''so sorry'') Map.empty = - 20
   \<and> fst (chat py scenario_catalog (Some echo_client) (request_to ''maya'' ''so sorry'') ''unknown'' Map.empty) =
         Inr [(''reply'', JStr (build_system_prompt ''maya'' scenario_cfg GUARDIAN_PROMPT)),
              (''trust_score'', JInt (- 20)),
              (''persona'', JStr ''guardian''),
              (''request_id'', JStr ''unknown'')]"
proof -
  have h1: "chat_character py (request_to ''maya'' ''so sorry'') \<noteq> []"
    by code_simp
  have h2: "map_of scenario_catalog (chat_character py (request_to ''maya'' ''so sorry'')) = Some scenario_cfg"
    by code_simp
  have h3: "chat_user_message py (request_to ''maya'' ''so sorry'') \<noteq> []"
    by code_simp
  have h4: "length (chat_user_message py (request_to ''maya'' ''so sorry'')) \<le> 1000"
    by code_simp
  have t: "trust_after py scenario_cfg (request_to ''maya'' ''so sorry'') Map.empty = - 20"
    by code_simp
  have c: "chat_character py (request_to ''maya'' ''so sorry'') = ''maya''"
    by code_simp
  have g: "fst (generate_ai_response py (Some echo_client) c m p) = Some p" for c m p
    by (simp add: generate_ai_response_def echo_client_def)
  from persona_follows_trust_score [OF h1 h2 h3 h4, of "Some echo_client" "''unknown''" Map.empty]
    h1 h2 h3 h4 t
  show ?thesis by (simp add: g c)
qed

subsection \<open>C8: a session id reused with another character\<close>

text \<open>
  C8: when the store holds a session under an id and a request names another character
  for that id, \<open>get_session\<close> replaces the entry by a newly created session: bound to
  the new character, \<open>wrong_count = 0\<close>, \<open>logo_stage = 1\<close>, no \<open>trust_score\<close> key and
  so a trust score read as 0, whatever the old entry held. An accepted chat request that
  rebinds the session therefore stores the new session with the trust score its own
  message gives when counted from 0.
\<close>

theorem get_session_rebind_fresh:
  assumes "st sid = Some s" and "character s \<noteq> c"
  shows "get_session sid c st = (new_session c, st(sid \<mapsto> new_session c))
     \<and> character (new_session c) = c \<and> wrong_count (new_session c) = 0
     \<and> logo_stage (new_session c) = 1 \<and> get_trust_score (new_session c) = 0
     \<and> (chat_session_id req = sid \<and> chat_character rt req = c \<and> c \<noteq> []
          \<and> map_of CHARACTERS c = Some cfg
          \<and> chat_user_message rt req \<noteq> [] \<and> length (chat_user_message rt req) \<le> 1000 \<longrightarrow>
        snd (chat rt CHARACTERS client req rid st) sid =
          Some ((new_session c)\<lparr>trust_score := Some (update_trust_score rt cfg (chat_user_message rt req) 0)\<rparr>))"
proof -
  have f: "fst (get_session sid c st) = new_session c"
    using assms by (simp add: get_session_rebind)
  have g: "get_session sid c st = (new_session c, st(sid \<mapsto> new_session c))"
    using get_session_snd [of sid c st] f by (simp add: prod_eq_iff)
  have n: "character (new_session c) = c \<and> wrong_count (new_session c) = 0
     \<and> logo_stage (new_session c) = 1 \<and> get_trust_score (new_session c) = 0"
    by (simp add: new_session_def get_trust_score_def)
  have c: "snd (chat rt CHARACTERS client req rid st) sid =
          Some ((new_session c)\<lparr>trust_score := Some (update_trust_score rt cfg (chat_user_message rt req) 0)\<rparr>)"
    if "chat_session_id req = sid" "chat_character rt req = c" "c \<noteq> []" "map_of CHARACTERS c = Some cfg"
      "chat_user_message rt req \<noteq> []" "length (chat_user_message rt req) \<le> 1000"
  proof -
    have "chat_character rt req \<noteq> []" "map_of CHARACTERS (chat_character rt req) = Some cfg"
      using that by simp_all
    from chat_accepted [OF this that(5,6), of client rid st] that(1,2) f n
    show ?thesis by simp
  qed
  from g n c show ?thesis by blast
qed


theorem get_session_rebind_fresh_witness:
  "escalated_store ''s1'' = Some \<lparr>character = ''maya'', wrong_count = 3, logo_stage = 4, trust_score = Some 40\<rparr>
   \<and> character \<lparr>character = ''maya'', wrong_count = 3, logo_stage = 4, trust_score = Some 40\<rparr> \<noteq> ''eli''
   \<and> get_session ''s1'' ''eli'' escalated_store = (new_session ''eli'', escalated_store(''s1'' \<mapsto> new_session ''eli''))
   \<and> character (new_session ''eli'') = ''eli'' \<and> wrong_count (new_session ''eli'') = 0
   \<and> logo_stage (new_session ''eli'') = 1 \<and> get_trust_score (new_session ''eli'') = 0
   \<and> chat_session_id (request_to ''eli'' ''hello'') = ''s1''
   \<and> chat_character py (request_to ''eli'' ''hello'') = ''eli''
   \<and> map_of scenario_catalog ''eli'' = Some scenario_cfg
   \<and> chat_user_message py (request_to ''eli'' ''hello'') \<noteq> []
   \<and> length (chat_user_message py (request_to ''eli'' ''hello'')) \<le> 1000
   \<and> snd (chat py scenario_catalog None (request_to ''eli'' ''hello'') ''unknown'' escalated_store) ''s1'' =
          Some ((new_session ''eli'')\<lparr>trust_score :=
             Some (update_trust_score py scenario_cfg (chat_user_message py (request_to ''eli'' ''hello'')) 0)\<rparr>)
   \<and> update_trust_score py scenario_cfg (chat_user_message py (request_to ''eli'' ''hello'')) 0 = 0"
proof -
  have h1: "escalated_store ''s1'' =
      Some \<lparr>character = ''maya'', wrong_count = 3, logo_stage = 4, trust_score = Some 40\<rparr>"
    by (simp add: escalated_store_def)
  have h2: "character \<lparr>character = ''maya'', wrong_count = 3, logo_stage = 4, trust_score = Some 40\<rparr> \<noteq> ''eli''"
    by simp
  have r1: "chat_session_id (request_to ''eli'' ''hello'') = ''s1''" by code_simp
  have r2: "chat_character py (request_to ''eli'' ''hello'') = ''eli''" by code_simp
  have r3: "''eli'' \<noteq> []" by simp
  have r4: "map_of scenario_catalog ''eli'' = Some scenario_cfg" by code_simp
  have r5: "chat_user_message py (request_to ''eli'' ''hello'') \<noteq> []" by code_simp
  have r6: "length (chat_user_message py (request_to ''eli'' ''hello'')) \<le> 1000" by code_simp
  have u: "update_trust_score py scenario_cfg (chat_user_message py (request_to ''eli'' ''hello'')) 0 = 0"
    by code_simp
  from get_session_rebind_fresh [where st = escalated_store and sid = "''s1''" and c = "''eli''"
      and req = "request_to ''eli'' ''hello''" and CHARACTERS = scenario_catalog and cfg = scenario_cfg
      and client = None and rid = "''unknown''", OF h1 h2] h1 h2 r1 r2 r3 r4 r5 r6 u
  show ?thesis by blast
qed

section \<open>Sequences of chat requests\<close>

lemma served_session_after_chat:
  assumes "chat_character rt req \<noteq> []"
    and "map_of CHARACTERS (chat_character rt req) = Some cfg"
    and "chat_user_message rt req \<noteq> []"
    and "length (chat_user_message rt req) \<le> 1000"
  shows "served_session rt req (snd (chat rt CHARACTERS client req rid st))
           = (served_session rt req st)\<lparr>trust_score := Some (trust_after rt cfg req st)\<rparr>"
  by (simp add: chat_accepted [OF assms] get_session_same get_session_character)

lemma update_trust_score_shift:
  "update_trust_score rt cfg m t = t + update_trust_score rt cfg m 0"
  by (simp add: update_trust_score_def)

lemma chat_run_replicate:
  assumes "chat_character rt req \<noteq> []"
    and "map_of CHARACTERS (chat_character rt req) = Some cfg"
    and "chat_user_message rt req \<noteq> []"
    and "length (chat_user_message rt req) \<le> 1000"
  shows "list_all (\<lambda>r. \<not> isl r) (fst (chat_run rt CHARACTERS client (replicate k (req, rid)) st))
       \<and> get_trust_score (served_session rt req (snd (chat_run rt CHARACTERS client (replicate k (req, rid)) st)))
           = get_trust_score (served_session rt req st) + int k * update_trust_score rt cfg (chat_user_message rt req) 0"
proof (induction k arbitrary: st)
  case 0
  show ?case by simp
next
  case (Suc k)
  let ?st1 = "snd (chat rt CHARACTERS client req rid st)"
  have ok: "\<not> isl (fst (chat rt CHARACTERS client req rid st))"
    by (simp add: chat_accepted [OF assms])
  have t1: "get_trust_score (served_session rt req ?st1)
      = get_trust_score (served_session rt req st) + update_trust_score rt cfg (chat_user_message rt req) 0"
    using update_trust_score_shift [of rt cfg "chat_user_message rt req" "get_trust_score (served_session rt req st)"]
    by (simp add: served_session_after_chat [OF assms] get_trust_score_def)
  from Suc.IH [of ?st1] ok t1 show ?case
    by (simp add: Let_def algebra_simps)
qed

lemma chat_run_replicate_stored:
  assumes "chat_character rt req \<noteq> []"
    and "map_of CHARACTERS (chat_character rt req) = Some cfg"
    and "chat_user_message rt req \<noteq> []"
    and "length (chat_user_message rt req) \<le> 1000"
  shows "\<exists>s'. snd (chat_run rt CHARACTERS client (replicate (Suc k) (req, rid)) st) (chat_session_id req) = Some s'
     \<and> character s' = chat_character rt req"
proof (induction k arbitrary: st)
  case 0
  show ?case by (simp add: Let_def chat_accepted [OF assms] get_session_character)
next
  case (Suc k)
  from Suc.IH [of "snd (chat rt CHARACTERS client req rid st)"] show ?case
    by (simp add: Let_def)
qed

subsection \<open>C6: the trust score moves in steps of 20 and is not clamped\<close>

text \<open>
  C6: a newly created session has trust score 0. An accepted chat request leaves the
  stored session with the score it was served with, lowered by exactly 20 when the
  message is classified as a success, raised by exactly 20 when it is classified as a
  fail, and unchanged otherwise. Nothing clamps the score: sending an accepted request
  \<open>n + 1\<close> times to an empty store is answered every time (no HTTP error) and leaves the
  score at \<open>-20 (n + 1)\<close>, below \<open>-20 n\<close>, for a success message, and at
  \<open>20 (n + 1)\<close>, above \<open>20 n\<close>, for a fail message.
\<close>

theorem trust_score_moves_by_twenty:
  assumes "chat_character rt req \<noteq> []"
    and "map_of CHARACTERS (chat_character rt req) = Some cfg"
    and "chat_user_message rt req \<noteq> []"
    and "length (chat_user_message rt req) \<le> 1000"
  shows "get_trust_score (new_session c) = 0
     \<and> (\<exists>s'. snd (chat rt CHARACTERS client req rid st) (chat_session_id req) = Some s'
          \<and> get_trust_score s' = get_trust_score (served_session rt req st)
               + (if contains_any rt (chat_user_message rt req) (success_keywords cfg) then - 20
                  else if contains_any rt (chat_user_message rt req) (fail_keywords cfg) then 20 else 0))
     \<and> list_all (\<lambda>r. \<not> isl r) (fst (chat_run rt CHARACTERS client (replicate (Suc n) (req, rid)) Map.empty))
     \<and> (\<exists>s'. snd (chat_run rt CHARACTERS client (replicate (Suc n) (req, rid)) Map.empty) (chat_session_id req) = Some s'
          \<and> (contains_any rt (chat_user_message rt req) (success_keywords cfg) \<longrightarrow>
                get_trust_score s' = - 20 * (int n + 1) \<and> get_trust_score s' < - 20 * int n)
          \<and> (\<not> contains_any rt (chat_user_message rt req) (success_keywords cfg)
               \<and> contains_any rt (chat_user_message rt req) (fail_keywords cfg) \<longrightarrow>
                get_trust_score s' = 20 * (int n + 1) \<and> get_trust_score s' > 20 * int n))"
proof -
  let ?m = "chat_user_message rt req"
  let ?d = "update_trust_score rt cfg ?m 0"
  let ?run = "chat_run rt CHARACTERS client (replicate (Suc n) (req, rid)) Map.empty"
  have d: "?d = (if contains_any rt ?m (success_keywords cfg) then - 20
                  else if contains_any rt ?m (fail_keywords cfg) then 20 else 0)"
    by (simp add: update_trust_score_def)
  have a: "get_trust_score (new_session c) = 0" for c
    by (simp add: get_trust_score_def new_session_def)
  have b: "\<exists>s'. snd (chat rt CHARACTERS client req rid st) (chat_session_id req) = Some s'
          \<and> get_trust_score s' = get_trust_score (served_session rt req st) + ?d"
    using update_trust_score_shift [of rt cfg ?m "get_trust_score (served_session rt req st)"]
    by (simp add: chat_accepted [OF assms] get_trust_score_def)
  have r: "list_all (\<lambda>r. \<not> isl r) (fst ?run)"
    and t: "get_trust_score (served_session rt req (snd ?run))
           = get_trust_score (served_session rt req Map.empty) + int (Suc n) * ?d"
    using chat_run_replicate [OF assms, of client "Suc n" rid Map.empty] by blast+
  obtain s' where s': "snd ?run (chat_session_id req) = Some s'" "character s' = chat_character rt req"
    using chat_run_replicate_stored [OF assms, of client n rid Map.empty] by blast
  have "served_session rt req (snd ?run) = s'"
    using s' by (simp add: get_session_same)
  moreover have "get_trust_score (served_session rt req Map.empty) = 0"
    by (simp add: get_session_absent a)
  ultimately have ts: "get_trust_score s' = (int n + 1) * ?d"
    using t by simp
  have "(contains_any rt ?m (success_keywords cfg) \<longrightarrow>
                get_trust_score s' = - 20 * (int n + 1) \<and> get_trust_score s' < - 20 * int n)
          \<and> (\<not> contains_any rt ?m (success_keywords cfg) \<and> contains_any rt ?m (fail_keywords cfg) \<longrightarrow>
                get_trust_score s' = 20 * (int n + 1) \<and> get_trust_score s' > 20 * int n)"
    using ts d by auto
  with s'(1) a b r d show ?thesis by auto
qed

theorem trust_score_moves_by_twenty_witness:
  "chat_character py (request_to ''maya'' ''sorry'') \<noteq> []
   \<and> map_of scenario_catalog (chat_character py (request_to ''maya'' ''sorry'')) = Some scenario_cfg
   \<and> chat_user_message py (request_to ''maya'' ''sorry'') \<noteq> []
   \<and> length (chat_user_message py (request_to ''maya'' ''sorry'')) \<le> 1000
   \<and> contains_any py (chat_user_message py (request_to ''maya'' ''sorry'')) (success_keywords scenario_cfg)
   \<and> list_all (\<lambda>r. \<not> isl r)
        (fst (chat_run py scenario_catalog None (replicate (Suc 2) (request_to ''maya'' ''sorry'', ''unknown'')) Map.empty))
   \<and> (\<exists>s'. snd (chat_run py scenario_catalog None (replicate (Suc 2) (request_to ''maya'' ''sorry'', ''unknown''))
               Map.empty) (chat_session_id (request_to ''maya'' ''sorry'')) = Some s'
          \<and> get_trust_score s' = - 60 \<and> get_trust_score s' < - 40)
   \<and> chat_character py (request_to ''maya'' ''click here'') \<noteq> []
   \<and> map_of scenario_catalog (chat_character py (request_to ''maya'' ''click here'')) = Some scenario_cfg
   \<and> chat_user_message py (request_to ''maya'' ''click here'') \<noteq> []
   \<and> length (chat_user_message py (request_to ''maya'' ''click here'')) \<le> 1000
   \<and> \<not> contains_any py (chat_user_message py (request_to ''maya'' ''click here'')) (success_keywords scenario_cfg)
   \<and> contains_any py (chat_user_message py (request_to ''maya'' ''click here'')) (fail_keywords scenario_cfg)
   \<and> (\<exists>s'. snd (chat_run py scenario_catalog None (replicate (Suc 2) (request_to ''maya'' ''click here'', ''unknown''))
               Map.empty) (chat_session_id (request_to ''maya'' ''click here'')) = Some s'
          \<and> get_trust_score s' = 60 \<and> get_trust_score s' > 40)"
proof -
  have h1: "chat_character py (request_to ''maya'' ''sorry'') \<noteq> []"
    by code_simp
  have h2: "map_of scenario_catalog (chat_character py (request_to ''maya'' ''sorry'')) = Some scenario_cfg"
    by code_simp
  have h3: "chat_user_message py (request_to ''maya'' ''sorry'') \<noteq> []"
    by code_simp
  have h4: "length (chat_user_message py (request_to ''maya'' ''sorry'')) \<le> 1000"
    by code_simp
  have h5: "contains_any py (chat_user_message py (request_to ''maya'' ''sorry'')) (success_keywords scenario_cfg)"
    by code_simp
  have k1: "chat_character py (request_to ''maya'' ''click here'') \<noteq> []"
    by code_simp
  have k2: "map_of scenario_catalog (chat_character py (request_to ''maya'' ''click here'')) = Some scenario_cfg"
    by code_simp
  have k3: "chat_user_message py (request_to ''maya'' ''click here'') \<noteq> []"
    by code_simp
  have k4: "length (chat_user_message py (request_to ''maya'' ''click here'')) \<le> 1000"
    by code_simp
  have k5: "\<not> contains_any py (chat_user_message py (request_to ''maya'' ''click here'')) (success_keywords scenario_cfg)"
    by code_simp
  have k6: "contains_any py (chat_user_message py (request_to ''maya'' ''click here'')) (fail_keywords scenario_cfg)"
    by code_simp
  have down: "list_all (\<lambda>r. \<not> isl r)
        (fst (chat_run py scenario_catalog None (replicate (Suc 2) (request_to ''maya'' ''sorry'', ''unknown'')) Map.empty))
   \<and> (\<exists>s'. snd (chat_run py scenario_catalog None (replicate (Suc 2) (request_to ''maya'' ''sorry'', ''unknown''))
               Map.empty) (chat_session_id (request_to ''maya'' ''sorry'')) = Some s'
          \<and> get_trust_score s' = - 60 \<and> get_trust_score s' < - 40)"
    using trust_score_moves_by_twenty [OF h1 h2 h3 h4, of "''maya''" None "''unknown''" Map.empty 2] h5
    by auto
  have up: "\<exists>s'. snd (chat_run py scenario_catalog None (replicate (Suc 2) (request_to ''maya'' ''click here'', ''unknown''))
               Map.empty) (chat_session_id (request_to ''maya'' ''click here'')) = Some s'
          \<and> get_trust_score s' = 60 \<and> get_trust_score s' > 40"
    using trust_score_moves_by_twenty [OF k1 k2 k3 k4, of "''maya''" None "''unknown''" Map.empty 2] k5 k6
    by auto
  from h1 h2 h3 h4 h5 k1 k2 k3 k4 k5 k6 down up show ?thesis by blast
qed

section \<open>The generation step and its canned replies\<close>

lemma str_in_append_left: "str_in k t \<Longrightarrow> str_in k (a @ t)"
  by (induction a) simp_all

lemma str_in_quoted: "str_in (take n m) (quoted n m @ b)"
proof -
  have "quoted n m @ b = [CHR 0x27] @ take n m @ (''...'' @ [CHR 0x27] @ b)"
    by (simp add: quoted_def)
  then show ?thesis
    by (simp only: str_in_middle)
qed

lemma rate_limit_reply_for_maya:
  "get_rate_limit_fallback ''maya'' m =
     hourglass @ '' Maya here - I'm getting a lot of messages right now. Give me a moment to process your message about ''
       @ quoted 30 m @ '' and I'll respond thoughtfully.''"
  by (simp add: get_rate_limit_fallback_def dict_get_def)

lemma connection_reply_for_maya:
  "get_connection_fallback ''maya'' m =
     arrows @ '' Maya here - I'm having some connection issues, but I caught your message about ''
       @ quoted 30 m @ '' Let me give you a quick response while I reconnect.''"
  by (simp add: get_connection_fallback_def dict_get_def)

subsection \<open>C9: failures are classified by their description, in a fixed order\<close>

text \<open>
  C9: when the call to the model fails with description \<open>e\<close>, the reply is chosen by
  substring tests on the lower-cased \<open>e\<close>, in this order: \<open>rate limit\<close> or \<open>429\<close>
  gives the rate-limit reply; otherwise \<open>timeout\<close> or \<open>connection\<close> gives the
  connection reply; otherwise \<open>invalid\<close> or \<open>400\<close> gives the invalid-request reply;
  otherwise the generic reply. The rate-limit reply for \<open>maya\<close> contains the first 30
  characters of the user's message and differs from the connection reply for \<open>maya\<close>
  on the same message.
\<close>

theorem failure_classified_in_order:
  assumes "call system_prompt user_message = Raised e"
  shows "(str_in ''rate limit'' (lower rt e) \<or> str_in ''429'' (lower rt e) \<longrightarrow>
           fst (generate_ai_response rt (Some call) c user_message system_prompt)
             = Some (get_rate_limit_fallback c user_message))
     \<and> (\<not> (str_in ''rate limit'' (lower rt e) \<or> str_in ''429'' (lower rt e))
          \<and> (str_in ''timeout'' (lower rt e) \<or> str_in ''connection'' (lower rt e)) \<longrightarrow>
           fst (generate_ai_response rt (Some call) c user_message system_prompt)
             = Some (get_connection_fallback c user_message))
     \<and> (\<not> (str_in ''rate limit'' (lower rt e) \<or> str_in ''429'' (lower rt e))
          \<and> \<not> (str_in ''timeout'' (lower rt e) \<or> str_in ''connection'' (lower rt e))
          \<and> (str_in ''invalid'' (lower rt e) \<or> str_in ''400'' (lower rt e)) \<longrightarrow>
           fst (generate_ai_response rt (Some call) c user_message system_prompt)
             = Some (get_invalid_request_fallback c user_message))
     \<and> (\<not> (str_in ''rate limit'' (lower rt e) \<or> str_in ''429'' (lower rt e))
          \<and> \<not> (str_in ''timeout'' (lower rt e) \<or> str_in ''connection'' (lower rt e))
          \<and> \<not> (str_in ''invalid'' (lower rt e) \<or> str_in ''400'' (lower rt e)) \<longrightarrow>
           fst (generate_ai_response rt (Some call) c user_message system_prompt)
             = Some (get_generic_ai_fallback c user_message))
     \<and> str_in (take 30 user_message) (get_rate_limit_fallback ''maya'' user_message)
     \<and> get_rate_limit_fallback ''maya'' user_message \<noteq> get_connection_fallback ''maya'' user_message"
proof -
  have order: "fst (generate_ai_response rt (Some call) c user_message system_prompt) =
      (if str_in ''rate limit'' (lower rt e) \<or> str_in ''429'' (lower rt e)
         then Some (get_rate_limit_fallback c user_message)
       else if str_in ''timeout'' (lower rt e) \<or> str_in ''connection'' (lower rt e)
         then Some (get_connection_fallback c user_message)
       else if str_in ''invalid'' (lower rt e) \<or> str_in ''400'' (lower rt e)
         then Some (get_invalid_request_fallback c user_message)
       else Some (get_generic_ai_fallback c user_message))"
    using assms by (simp add: generate_ai_response_def Let_def)
  have echo: "str_in (take 30 user_message) (get_rate_limit_fallback ''maya'' user_message)"
    unfolding rate_limit_reply_for_maya
    by (intro str_in_append_left str_in_quoted)
  have differ: "get_rate_limit_fallback ''maya'' user_message \<noteq> get_connection_fallback ''maya'' user_message"
    unfolding rate_limit_reply_for_maya connection_reply_for_maya
    by (simp add: hourglass_def arrows_def)
  from order echo differ show ?thesis by simp
qed


theorem failure_classified_in_order_witness:
  "raising_client ''Error code: 429 - Rate Limit reached after connection timeout'' ''p'' ''hello there'' =
      Raised ''Error code: 429 - Rate Limit reached after connection timeout''
   \<and> (str_in ''rate limit'' (lower py ''Error code: 429 - Rate Limit reached after connection timeout'')
        \<or> str_in ''429'' (lower py ''Error code: 429 - Rate Limit reached after connection timeout''))
   \<and> fst (generate_ai_response py
          (Some (raising_client ''Error code: 429 - Rate Limit reached after connection timeout''))
          ''maya'' ''hello there'' ''p'') = Some (get_rate_limit_fallback ''maya'' ''hello there'')
   \<and> raising_client ''Connection error: invalid host'' ''p'' ''hello there'' = Raised ''Connection error: invalid host''
   \<and> \<not> (str_in ''rate limit'' (lower py ''Connection error: invalid host'')
          \<or> str_in ''429'' (lower py ''Connection error: invalid host''))
   \<and> (str_in ''timeout'' (lower py ''Connection error: invalid host'')
        \<or> str_in ''connection'' (lower py ''Connection error: invalid host''))
   \<and> fst (generate_ai_response py (Some (raising_client ''Connection error: invalid host''))
          ''maya'' ''hello there'' ''p'') = Some (get_connection_fallback ''maya'' ''hello there'')
   \<and> str_in (take 30 ''hello there'') (get_rate_limit_fallback ''maya'' ''hello there'')
   \<and> get_rate_limit_fallback ''maya'' ''hello there'' \<noteq> get_connection_fallback ''maya'' ''hello there''"
proof -
  have r: "raising_client ''Error code: 429 - Rate Limit reached after connection timeout'' ''p'' ''hello there'' =
      Raised ''Error code: 429 - Rate Limit reached after connection timeout''"
    by (simp add: raising_client_def)
  have r1: "str_in ''rate limit'' (lower py ''Error code: 429 - Rate Limit reached after connection timeout'')
        \<or> str_in ''429'' (lower py ''Error code: 429 - Rate Limit reached after connection timeout'')"
    by code_simp
  have k: "raising_client ''Connection error: invalid host'' ''p'' ''hello there'' = Raised ''Connection error: invalid host''"
    by (simp add: raising_client_def)
  have k1: "\<not> (str_in ''rate limit'' (lower py ''Connection error: invalid host'')
          \<or> str_in ''429'' (lower py ''Connection error: invalid host''))"
    by code_simp
  have k2: "str_in ''timeout'' (lower py ''Connection error: invalid host'')
        \<or> str_in ''connection'' (lower py ''Connection error: invalid host'')"
    by code_simp
  have rate: "fst (generate_ai_response py
          (Some (raising_client ''Error code: 429 - Rate Limit reached after connection timeout''))
          ''maya'' ''hello there'' ''p'') = Some (get_rate_limit_fallback ''maya'' ''hello there'')
     \<and> str_in (take 30 ''hello there'') (get_rate_limit_fallback ''maya'' ''hello there'')
     \<and> get_rate_limit_fallback ''maya'' ''hello there'' \<noteq> get_connection_fallback ''maya'' ''hello there''"
    using failure_classified_in_order [where rt = py
        and call = "raising_client ''Error code: 429 - Rate Limit reached after connection timeout''"
        and system_prompt = "''p''" and user_message = "''hello there''"
        and e = "''Error code: 429 - Rate Limit reached after connection timeout''" and c = "''maya''", OF r] r1
    by blast
  have conn: "fst (generate_ai_response py (Some (raising_client ''Connection error: invalid host''))
          ''maya'' ''hello there'' ''p'') = Some (get_connection_fallback ''maya'' ''hello there'')"
    using failure_classified_in_order [where rt = py
        and call = "raising_client ''Connection error: invalid host''"
        and system_prompt = "''p''" and user_message = "''hello there''"
        and e = "''Connection error: invalid host''" and c = "''maya''", OF k] k1 k2
    by blast
  from r r1 k k1 k2 rate conn show ?thesis by blast
qed

subsection \<open>C10: demo mode\<close>

text \<open>
  C10 as the spec states it: without a client the result is flagged
  \<open>usedFallback = true\<close>. The generation step returns a bare reply, and the endpoint
  neither returns nor records a flag: in demo mode a neutral message to \<open>maya\<close> is
  answered with the four keys \<open>reply\<close>, \<open>trust_score\<close>, \<open>persona\<close>, \<open>request_id\<close> and
  leaves \<open>wrong_count\<close> at 0, where the outcome engine called with the flag set would
  have counted 1.
\<close>

theorem demo_mode_reply_flag_counterexample:
  "fst (chat py scenario_catalog None (request_to ''maya'' ''hello'') ''unknown'' Map.empty)
     = Inr [(''reply'', JStr (get_demo_mode_response ''maya'' ''hello'')),
            (''trust_score'', JInt 0),
            (''persona'', JStr ''deceiver''),
            (''request_id'', JStr ''unknown'')]
   \<and> snd (chat py scenario_catalog None (request_to ''maya'' ''hello'') ''unknown'' Map.empty) ''s1''
     = Some \<lparr>character = ''maya'', wrong_count = 0, logo_stage = 1, trust_score = Some 0\<rparr>
   \<and> wrong_count (snd (decide_outcome_and_update py (new_session ''maya'') scenario_cfg ''hello'' True)) = 1"
  by code_simp

lemma demo_reply_unknown_character:
  "c \<noteq> ''maya'' \<Longrightarrow> c \<noteq> ''eli'' \<Longrightarrow> c \<noteq> ''stanley'' \<Longrightarrow>
   get_demo_mode_response c m = waving @ '' Demo mode - please configure OpenAI API key for full functionality.''"
  by (simp add: get_demo_mode_response_def dict_get_def)

lemma demo_reply_for_maya:
  "get_demo_mode_response ''maya'' m =
     waving @ '' Hi! I'm Maya. I received your message: ''
       @ quoted 50 m @ '' This is demo mode - add your OpenAI API key for full AI responses.''"
  by (simp add: get_demo_mode_response_def dict_get_def)

lemma demo_reply_for_eli:
  "get_demo_mode_response ''eli'' m =
     waving @ '' Hey! Eli here. Got your message: ''
       @ quoted 50 m @ '' Running in demo mode - need OpenAI API key for smart responses.''"
  by (simp add: get_demo_mode_response_def dict_get_def)

lemma demo_reply_for_stanley:
  "get_demo_mode_response ''stanley'' m =
     waving @ '' Hello! Stanley speaking. About your message: ''
       @ quoted 50 m @ '' This is demo mode - please configure OpenAI API key.''"
  by (simp add: get_demo_mode_response_def dict_get_def)

lemma demo_reply_echo:
  assumes "c = ''maya'' \<or> c = ''eli'' \<or> c = ''stanley''"
  shows "str_in (take 50 m) (get_demo_mode_response c m)"
proof -
  have "str_in (take 50 m) (get_demo_mode_response ''maya'' m)"
    unfolding demo_reply_for_maya by (intro str_in_append_left str_in_quoted)
  moreover have "str_in (take 50 m) (get_demo_mode_response ''eli'' m)"
    unfolding demo_reply_for_eli by (intro str_in_append_left str_in_quoted)
  moreover have "str_in (take 50 m) (get_demo_mode_response ''stanley'' m)"
    unfolding demo_reply_for_stanley by (intro str_in_append_left str_in_quoted)
  ultimately show ?thesis using assms by blast
qed

text \<open>
  C10, amended: without a client the generation step makes no call to the model and
  returns the demo-mode reply of the character: for \<open>maya\<close>, \<open>eli\<close> and \<open>stanley\<close> a
  text of their own that echoes the first 50 characters of the message, for any other
  character the generic demo text. The result is the reply alone, with no fallback flag:
  an accepted chat request in demo mode is answered with that reply, the trust score,
  the persona and the request id, and only the trust score of the session is written.
\<close>

theorem demo_mode_skips_the_model:
  assumes "chat_character rt req \<noteq> []"
    and "map_of CHARACTERS (chat_character rt req) = Some cfg"
    and "chat_user_message rt req \<noteq> []"
    and "length (chat_user_message rt req) \<le> 1000"
  shows "generate_ai_response rt None c user_message system_prompt
           = (Some (get_demo_mode_response c user_message), [])
     \<and> (c = ''maya'' \<or> c = ''eli'' \<or> c = ''stanley'' \<longrightarrow>
          str_in (take 50 user_message) (get_demo_mode_response c user_message))
     \<and> (c \<noteq> ''maya'' \<and> c \<noteq> ''eli'' \<and> c \<noteq> ''stanley'' \<longrightarrow>
          get_demo_mode_response c user_message
            = waving @ '' Demo mode - please configure OpenAI API key for full functionality.'')
     \<and> chat rt CHARACTERS None req rid st =
         (Inr [(''reply'', JStr (get_demo_mode_response (chat_character rt req) (chat_user_message rt req))),
               (''trust_score'', JInt (trust_after rt cfg req st)),
               (''persona'', JStr (snd (select_persona (trust_after rt cfg req st)))),
               (''request_id'', JStr rid)],
          st(chat_session_id req \<mapsto> (served_session rt req st)\<lparr>trust_score := Some (trust_after rt cfg req st)\<rparr>))"
proof -
  have g: "generate_ai_response rt None c m p = (Some (get_demo_mode_response c m), [])" for c m p
    by (simp add: generate_ai_response_def)
  have "chat rt CHARACTERS None req rid st =
         (Inr [(''reply'', JStr (get_demo_mode_response (chat_character rt req) (chat_user_message rt req))),
               (''trust_score'', JInt (trust_after rt cfg req st)),
               (''persona'', JStr (snd (select_persona (trust_after rt cfg req st)))),
               (''request_id'', JStr rid)],
          st(chat_session_id req \<mapsto> (served_session rt req st)\<lparr>trust_score := Some (trust_after rt cfg req st)\<rparr>))"
    by (simp add: chat_accepted [OF assms] g)
  with g [of c user_message system_prompt] demo_reply_echo [of c user_message]
    demo_reply_unknown_character [of c user_message]
  show ?thesis by blast
qed

theorem demo_mode_skips_the_model_witness:
  "chat_character py (request_to ''stanley'' ''hello'') \<noteq> []
   \<and> map_of ((''stanley'', scenario_cfg) # scenario_catalog) (chat_character py (request_to ''stanley'' ''hello''))
       = Some scenario_cfg
   \<and> chat_user_message py (request_to ''stanley'' ''hello'') \<noteq> []
   \<and> length (chat_user_message py (request_to ''stanley'' ''hello'')) \<le> 1000
   \<and> generate_ai_response py None ''stanley'' ''hello'' ''p'' = (Some (get_demo_mode_response ''stanley'' ''hello''), [])
   \<and> str_in (take 50 ''hello'') (get_demo_mode_response ''stanley'' ''hello'')
   \<and> fst (chat py ((''stanley'', scenario_cfg) # scenario_catalog) None (request_to ''stanley'' ''hello'')
         ''unknown'' Map.empty) =
         Inr [(''reply'', JStr (get_demo_mode_response (chat_character py (request_to ''stanley'' ''hello''))
                 (chat_user_message py (request_to ''stanley'' ''hello'')))),
               (''trust_score'', JInt (trust_after py scenario_cfg (request_to ''stanley'' ''hello'') Map.empty)),
               (''persona'', JStr (snd (select_persona (trust_after py scenario_cfg (request_to ''stanley'' ''hello'') Map.empty)))),
               (''request_id'', JStr ''unknown'')]"
proof -
  have h1: "chat_character py (request_to ''stanley'' ''hello'') \<noteq> []"
    by code_simp
  have h2: "map_of ((''stanley'', scenario_cfg) # scenario_catalog) (chat_character py (request_to ''stanley'' ''hello''))
       = Some scenario_cfg"
    by code_simp
  have h3: "chat_user_message py (request_to ''stanley'' ''hello'') \<noteq> []"
    by code_simp
  have h4: "length (chat_user_message py (request_to ''stanley'' ''hello'')) \<le> 1000"
    by code_simp
  from demo_mode_skips_the_model [OF h1 h2 h3 h4, of "''stanley''" "''hello''" "''p''" "''unknown''" Map.empty]
    h1 h2 h3 h4
  show ?thesis by simp
qed

end
